theory Spec2Isabelle
  imports Complex_Main "HOL-Library.Word"
begin

section \<open>Python values and exceptions\<close>

text \<open>
  The adapters pass dynamically typed values around: record dictionaries, keyword
  arguments, message dictionaries. They are embedded as one datatype. A dictionary is an
  association list in insertion order, read with \<open>map_of\<close>; a float is a real number
  (the adapters never compute with floats, they forward and compare them); \<open>PObj\<close> is an
  opaque object known by its class name.
\<close>

datatype py_value =
    PNone
  | PBool bool
  | PInt int
  | PFloat real
  | PStr string
  | PList "py_value list"
  | PDict "(string \<times> py_value) list"
  | PObj string

type_synonym py_dict = "(string \<times> py_value) list"

text \<open>
  An exception is its class and the text \<open>str(e)\<close> gives. \<open>ValidationError\<close> (pydantic)
  and \<open>JSONDecodeError\<close> (json) are subclasses of \<open>ValueError\<close>.
\<close>

datatype exn_class =
    ValueError
  | RuntimeError
  | KeyError
  | IndexError
  | TypeError
  | AttributeError
  | ValidationError
  | JSONDecodeError
  | OSError
  | OtherException

datatype py_exception = Exn exn_class string

fun exn_class_of :: "py_exception \<Rightarrow> exn_class" where
  "exn_class_of (Exn c m) = c"

fun exn_str :: "py_exception \<Rightarrow> string" where
  "exn_str (Exn c m) = m"


text \<open>A text between single quotes, as \<open>repr\<close> and the adapters' messages write it.\<close>

definition quote :: "string \<Rightarrow> string" where
  "quote s = [CHR 0x27] @ s @ [CHR 0x27]"

text \<open>\<open>rec[key]\<close> on a dictionary: \<open>KeyError\<close> when the key is absent; \<open>str\<close> of a
  \<open>KeyError\<close> is the \<open>repr\<close> of the key.\<close>

definition py_getitem :: "py_dict \<Rightarrow> string \<Rightarrow> py_exception + py_value" where
  "py_getitem d k =
     (case map_of d k of
        None \<Rightarrow> Inl (Exn KeyError (quote k))
      | Some v \<Rightarrow> Inr v)"

text \<open>\<open>rec.get(key, default)\<close>.\<close>

definition py_get :: "py_dict \<Rightarrow> string \<Rightarrow> py_value \<Rightarrow> py_value" where
  "py_get d k dflt = (case map_of d k of None \<Rightarrow> dflt | Some v \<Rightarrow> v)"

section \<open>The vector store adapter (qdrant/base_collection.py)\<close>

subsection \<open>What the adapter is given\<close>

text \<open>
  The builtin \<open>int\<close> and the constructor of the store's point type belong to Python
  and to the client library, not to the repository: both are parameters. \<open>py_int\<close> may
  raise on a value it cannot coerce; \<open>PointStruct\<close> validates its fields and may raise
  too. \<open>'p\<close> is the type of a constructed point.
\<close>

record 'p py_lib =
  py_int :: "py_value \<Rightarrow> py_exception + int"
  PointStruct :: "int \<Rightarrow> py_value \<Rightarrow> py_value \<Rightarrow> py_exception + 'p"

datatype Distance = COSINE | EUCLID | DOT | MANHATTAN

text \<open>The properties a subclass declares; \<open>distance\<close> defaults to \<open>COSINE\<close>.\<close>

record collection =
  collection_name :: string
  vector_size :: int
  distance :: Distance

text \<open>A point as the store returns it from a search.\<close>

record scored_point =
  sp_id :: py_value
  sp_payload :: py_value
  sp_score :: real

text \<open>
  The underlying client, with the store behind it. Every call to the client is appended
  to \<open>calls\<close>. \<open>outcomes\<close> schedules what the next calls do, one entry a call:
  \<open>None\<close> (or no entry left) lets the call succeed, \<open>Some e\<close> makes it raise \<open>e\<close>.
  \<open>stored\<close> holds the names of the collections of the store: a creation call that
  succeeds adds its name, one that raises changes nothing. \<open>hits\<close> is what the store
  answers to a search request.
\<close>

datatype 'p qdrant_call =
    GetCollections
  | CreateCollection string int Distance
  | Upsert string "'p list"
  | Search py_dict

record 'p qdrant_client =
  stored :: "string list"
  outcomes :: "py_exception option list"
  calls :: "'p qdrant_call list"
  hits :: "py_dict \<Rightarrow> scored_point list"

definition issue :: "'p qdrant_call \<Rightarrow> 'p qdrant_client \<Rightarrow> py_exception option \<times> 'p qdrant_client" where
  "issue call c =
     (let c1 = c\<lparr>calls := calls c @ [call]\<rparr>
      in case outcomes c1 of
           [] \<Rightarrow> (None, c1)
         | out # rest \<Rightarrow> (out, c1\<lparr>outcomes := rest\<rparr>))"

definition client_get_collections ::
  "'p qdrant_client \<Rightarrow> (py_exception + string list) \<times> 'p qdrant_client" where
  "client_get_collections c =
     (case issue GetCollections c of
        (Some e, c1) \<Rightarrow> (Inl e, c1)
      | (None, c1) \<Rightarrow> (Inr (stored c1), c1))"

definition client_create_collection ::
  "string \<Rightarrow> int \<Rightarrow> Distance \<Rightarrow> 'p qdrant_client \<Rightarrow> (py_exception + unit) \<times> 'p qdrant_client" where
  "client_create_collection name size' dmetric c =
     (case issue (CreateCollection name size' dmetric) c of
        (Some e, c1) \<Rightarrow> (Inl e, c1)
      | (None, c1) \<Rightarrow> (Inr (), c1\<lparr>stored := stored c1 @ [name]\<rparr>))"

definition client_upsert ::
  "string \<Rightarrow> 'p list \<Rightarrow> 'p qdrant_client \<Rightarrow> (py_exception + unit) \<times> 'p qdrant_client" where
  "client_upsert name points c =
     (case issue (Upsert name points) c of
        (Some e, c1) \<Rightarrow> (Inl e, c1)
      | (None, c1) \<Rightarrow> (Inr (), c1))"

definition client_search ::
  "py_dict \<Rightarrow> 'p qdrant_client \<Rightarrow> (py_exception + scored_point list) \<times> 'p qdrant_client" where
  "client_search kw c =
     (case issue (Search kw) c of
        (Some e, c1) \<Rightarrow> (Inl e, c1)
      | (None, c1) \<Rightarrow> (Inr (hits c1 kw), c1))"

subsection \<open>The adapter's methods\<close>

definition create_collection ::
  "collection \<Rightarrow> 'p qdrant_client \<Rightarrow> (py_exception + unit) \<times> 'p qdrant_client" where
  "create_collection self c =
     (case client_get_collections c of
        (Inl e, c1) \<Rightarrow>
          (Inl (Exn RuntimeError
             (''Failed to create collection '' @ quote (collection_name self) @ '': '' @ exn_str e)), c1)
      | (Inr collections_names, c1) \<Rightarrow>
          if collection_name self \<in> set collections_names then (Inr (), c1)
          else
            (case client_create_collection (collection_name self) (vector_size self) (distance self) c1 of
               (Inl e, c2) \<Rightarrow>
                 (Inl (Exn RuntimeError
                    (''Failed to create collection '' @ quote (collection_name self) @ '': '' @ exn_str e)), c2)
             | (Inr u, c2) \<Rightarrow> (Inr (), c2)))"

text \<open>
  The body of the loop of \<open>add_records\<close>: the keyword arguments of \<open>PointStruct\<close> are
  evaluated left to right, so a missing \<open>id\<close> is met before the coercion, the coercion
  before a missing \<open>vector\<close>, and the constructor runs last.
\<close>

definition make_point :: "'p py_lib \<Rightarrow> py_dict \<Rightarrow> py_exception + 'p" where
  "make_point L rec =
     (case py_getitem rec ''id'' of
        Inl e \<Rightarrow> Inl e
      | Inr i \<Rightarrow>
          (case py_int L i of
             Inl e \<Rightarrow> Inl e
           | Inr n \<Rightarrow>
               (case py_getitem rec ''vector'' of
                  Inl e \<Rightarrow> Inl e
                | Inr v \<Rightarrow> PointStruct L n v (py_get rec ''payload'' (PDict [])))))"

fun build_points :: "'p py_lib \<Rightarrow> py_dict list \<Rightarrow> 'p list \<Rightarrow> py_exception + 'p list" where
  "build_points L [] points = Inr points"
| "build_points L (rec # recs) points =
     (case make_point L rec of
        Inl e \<Rightarrow> Inl e
      | Inr point \<Rightarrow> build_points L recs (points @ [point]))"

definition add_records ::
  "'p py_lib \<Rightarrow> collection \<Rightarrow> 'p qdrant_client \<Rightarrow> py_dict list
     \<Rightarrow> (py_exception + unit) \<times> 'p qdrant_client" where
  "add_records L self c records =
     (if records = [] then (Inl (Exn ValueError ''No records provided for upsert.''), c)
      else
        (case build_points L records [] of
           Inl e \<Rightarrow> (Inl e, c)
         | Inr points \<Rightarrow>
             (case client_upsert (collection_name self) points c of
                (Inl e, c1) \<Rightarrow>
                  (Inl (Exn RuntimeError
                     (''Failed to upsert records into '' @ quote (collection_name self) @ '': '' @ exn_str e)), c1)
              | (Inr u, c1) \<Rightarrow> (Inr (), c1))))"

text \<open>The keyword arguments of the one call \<open>search\<close> makes to the client.\<close>

definition search_request :: "collection \<Rightarrow> py_value \<Rightarrow> int \<Rightarrow> real option \<Rightarrow> py_dict" where
  "search_request self query_vector limit score_threshold =
     [(''collection_name'', PStr (collection_name self)),
      (''query_vector'', query_vector),
      (''limit'', PInt limit),
      (''score_threshold'', (case score_threshold of None \<Rightarrow> PNone | Some t \<Rightarrow> PFloat t))]"

text \<open>The dictionary \<open>search\<close> returns for one point of the store's answer.\<close>

definition result_of_point :: "scored_point \<Rightarrow> py_value" where
  "result_of_point point =
     PDict [(''id'', sp_id point), (''payload'', sp_payload point), (''score'', PFloat (sp_score point))]"

text \<open>
  \<open>search\<close> takes the payload filter and leaves it out of the request (the keyword is
  commented out in the source).
\<close>

definition search ::
  "collection \<Rightarrow> 'p qdrant_client \<Rightarrow> py_value \<Rightarrow> int \<Rightarrow> py_value \<Rightarrow> real option
     \<Rightarrow> (py_exception + py_value list) \<times> 'p qdrant_client" where
  "search self c query_vector limit filter_arg score_threshold =
     (case client_search (search_request self query_vector limit score_threshold) c of
        (Inl e, c1) \<Rightarrow>
          (Inl (Exn RuntimeError
             (''Search in '' @ quote (collection_name self) @ '' failed: '' @ exn_str e)), c1)
      | (Inr results, c1) \<Rightarrow> (Inr (map result_of_point results), c1))"

subsection \<open>Observing the client\<close>

fun is_upsert :: "'p qdrant_call \<Rightarrow> bool" where
  "is_upsert (Upsert name points) = True"
| "is_upsert call = False"

fun is_creation :: "'p qdrant_call \<Rightarrow> bool" where
  "is_creation (CreateCollection name n d) = True"
| "is_creation call = False"

definition upsert_calls :: "'p qdrant_client \<Rightarrow> nat" where
  "upsert_calls c = length (filter is_upsert (calls c))"

definition creation_calls :: "'p qdrant_client \<Rightarrow> nat" where
  "creation_calls c = length (filter is_creation (calls c))"

text \<open>The next call to the client is scheduled to succeed.\<close>

definition next_call_ok :: "'p qdrant_client \<Rightarrow> bool" where
  "next_call_ok c = (case outcomes c of [] \<Rightarrow> True | out # rest \<Rightarrow> out = None)"

text \<open>The score read back from a result dictionary.\<close>

fun result_score :: "py_value \<Rightarrow> real option" where
  "result_score (PDict d) = (case map_of d ''score'' of Some (PFloat s) \<Rightarrow> Some s | _ \<Rightarrow> None)"
| "result_score v = None"

subsection \<open>A concrete library and store for the instances\<close>

text \<open>
  The theorems below hold for every \<open>py_lib\<close>. Their closed instances run on this one:
  a coercion that takes an int, a bool and a text of decimal digits and raises on
  everything else, and a point constructor that wants a list as vector and a
  dictionary or \<open>None\<close> as payload.
\<close>

record point =
  point_id :: int
  point_vector :: py_value
  point_payload :: py_value

fun decimal :: "string \<Rightarrow> int \<Rightarrow> int option" where
  "decimal [] acc = Some acc"
| "decimal (ch # rest) acc =
     (if 48 \<le> (of_char ch :: nat) \<and> (of_char ch :: nat) \<le> 57
      then decimal rest (10 * acc + (int (of_char ch) - 48))
      else None)"

fun sample_int :: "py_value \<Rightarrow> py_exception + int" where
  "sample_int (PInt n) = Inr n"
| "sample_int (PBool b) = Inr (if b then 1 else 0)"
| "sample_int (PStr s) =
     (case (if s = [] then None else decimal s 0) of
        Some n \<Rightarrow> Inr n
      | None \<Rightarrow> Inl (Exn ValueError (''invalid literal for int() with base 10: '' @ quote s)))"
| "sample_int v = Inl (Exn TypeError ''int() argument must be a string, a bytes-like object or a real number'')"

fun sample_PointStruct :: "int \<Rightarrow> py_value \<Rightarrow> py_value \<Rightarrow> py_exception + point" where
  "sample_PointStruct n (PList xs) (PDict d) =
     Inr \<lparr>point_id = n, point_vector = PList xs, point_payload = PDict d\<rparr>"
| "sample_PointStruct n (PList xs) PNone =
     Inr \<lparr>point_id = n, point_vector = PList xs, point_payload = PNone\<rparr>"
| "sample_PointStruct n v p = Inl (Exn ValidationError ''validation error for PointStruct'')"

definition sample_lib :: "point py_lib" where
  "sample_lib = \<lparr>py_int = sample_int, PointStruct = sample_PointStruct\<rparr>"

definition docs :: collection where
  "docs = \<lparr>collection_name = ''docs'', vector_size = 2, distance = COSINE\<rparr>"

text \<open>An empty store whose calls all succeed, and one whose second call raises.\<close>

definition fresh_client :: "point qdrant_client" where
  "fresh_client = \<lparr>stored = [], outcomes = [], calls = [], hits = (\<lambda>kw. [])\<rparr>"

definition flaky_client :: "point qdrant_client" where
  "flaky_client =
     \<lparr>stored = [], outcomes = [None, Some (Exn OtherException ''timed out'')], calls = [],
      hits = (\<lambda>kw. [])\<rparr>"

text \<open>A store that answers every search with two points, best first.\<close>

definition answering_client :: "point qdrant_client" where
  "answering_client =
     \<lparr>stored = [''docs''], outcomes = [], calls = [],
      hits = (\<lambda>kw. [\<lparr>sp_id = PInt 7, sp_payload = PDict [], sp_score = 9 / 10\<rparr>,
                     \<lparr>sp_id = PInt 3, sp_payload = PNone, sp_score = 3 / 4\<rparr>])\<rparr>"

section \<open>The LLM client adapters (llm/local_opemnai_client.py, llm/openai_client.py)\<close>

subsection \<open>The endpoint and what an invocation does to the world\<close>

text \<open>
  Modelled from the spec: the base class \<open>LLMClientBase\<close> is not among the sources; the
  adapters are "constructed with an API key, model name, and base URL", and the methods
  read \<open>self.model_name\<close>.
\<close>

record llm_client =
  api_key :: string
  model_name :: string
  base_url :: string

text \<open>The response of the chat-completion endpoint, as the SDK types it.\<close>

record chat_message =
  content :: "string option"

record choice =
  message :: chat_message

record chat_completion =
  choices :: "choice list"

text \<open>
  What an invocation does besides returning: a request that reaches the SDK's \<open>create\<close>
  (with its keyword arguments) and a pause of so many seconds. The endpoint answers a
  request with a response or raises; its answer may depend on all that happened before.
\<close>

datatype event = Create py_dict | Sleep nat

record openai =
  endpoint :: "event list \<Rightarrow> py_dict \<Rightarrow> py_exception + chat_completion"
  trace :: "event list"

fun requests_of :: "event list \<Rightarrow> py_dict list" where
  "requests_of [] = []"
| "requests_of (Create kw # evs) = kw # requests_of evs"
| "requests_of (Sleep n # evs) = requests_of evs"

definition requests :: "openai \<Rightarrow> py_dict list" where
  "requests w = requests_of (trace w)"

text \<open>
  A call \<open>create(model=..., messages=..., **kwargs)\<close>: a key of \<open>kwargs\<close> that repeats
  an explicit keyword raises \<open>TypeError\<close> before the function is entered, so nothing is
  sent; otherwise the request is sent and the endpoint answers.
\<close>

definition duplicate_keyword :: "string list \<Rightarrow> py_dict \<Rightarrow> string option" where
  "duplicate_keyword names kwargs =
     (case filter (\<lambda>k. k \<in> set names) (map fst kwargs) of
        [] \<Rightarrow> None
      | k # ks \<Rightarrow> Some k)"

definition chat_completions_create ::
  "py_dict \<Rightarrow> py_dict \<Rightarrow> openai \<Rightarrow> (py_exception + chat_completion) \<times> openai" where
  "chat_completions_create explicit kwargs w =
     (case duplicate_keyword (map fst explicit) kwargs of
        Some k \<Rightarrow>
          (Inl (Exn TypeError (''create() got multiple values for keyword argument '' @ quote k)), w)
      | None \<Rightarrow>
          (endpoint w (trace w) (explicit @ kwargs),
           w\<lparr>trace := trace w @ [Create (explicit @ kwargs)]\<rparr>))"

subsection \<open>\<open>LocalOpenaiClient.generate\<close>\<close>

definition LocalOpenaiClient_generate ::
  "llm_client \<Rightarrow> openai \<Rightarrow> string \<Rightarrow> int \<Rightarrow> real \<Rightarrow> string \<Rightarrow> py_dict
     \<Rightarrow> (py_exception + string option) \<times> openai" where
  "LocalOpenaiClient_generate self w prompt max_tokens temperature system_prompt kwargs =
     (let messages =
            (if system_prompt \<noteq> []
             then [PDict [(''role'', PStr ''system''), (''content'', PStr system_prompt)]]
             else [])
            @ [PDict [(''role'', PStr ''user''),
                      (''content'', PList [PDict [(''type'', PStr ''text''), (''text'', PStr prompt)]])]]
      in case chat_completions_create
                [(''model'', PStr (model_name self)),
                 (''messages'', PList messages),
                 (''max_tokens'', PInt max_tokens),
                 (''temperature'', PFloat temperature)] kwargs w of
           (Inl e, w1) \<Rightarrow>
             (Inl (Exn RuntimeError (''server generate request failed: '' @ exn_str e)), w1)
         | (Inr response, w1) \<Rightarrow>
             (case choices response of
                [] \<Rightarrow>
                  (Inl (Exn RuntimeError
                     (''Failed to parse server generate response: list index out of range'')), w1)
              | ch # chs \<Rightarrow> (Inr (content (message ch)), w1)))"

subsection \<open>\<open>LocalOpenaiClient.generate_json\<close>\<close>

text \<open>
  The response model is a pydantic class the caller supplies: \<open>model_validate_json\<close>
  parses and validates a text (it is handed whatever the response holds, \<open>None\<close>
  included) and \<open>model_dump_json\<close> serialises a validated object to JSON text.
  \<open>model_dump\<close>, which the adapter does not call, gives the object as a dictionary.
\<close>

record 'm response_model =
  model_validate_json :: "string option \<Rightarrow> py_exception + 'm"
  model_dump_json :: "'m \<Rightarrow> string"
  model_dump :: "'m \<Rightarrow> py_dict"

definition generate_json ::
  "llm_client \<Rightarrow> openai \<Rightarrow> string \<Rightarrow> int \<Rightarrow> 'm response_model \<Rightarrow> real \<Rightarrow> string \<Rightarrow> py_dict
     \<Rightarrow> (py_exception + py_value) \<times> openai" where
  "generate_json self w prompt max_tokens response_model temperature system_prompt kwargs =
     (let messages =
            (if system_prompt \<noteq> []
             then [PDict [(''role'', PStr ''system''), (''content'', PStr system_prompt)]]
             else [])
            @ [PDict [(''role'', PStr ''user''), (''content'', PStr prompt)]]
      in case chat_completions_create
                [(''model'', PStr (model_name self)),
                 (''messages'', PList messages),
                 (''max_tokens'', PInt max_tokens),
                 (''temperature'', PFloat temperature)] kwargs w of
           (Inl e, w1) \<Rightarrow>
             (Inl (Exn RuntimeError (''server generate_json request failed: '' @ exn_str e)), w1)
         | (Inr response, w1) \<Rightarrow>
             (case choices response of
                [] \<Rightarrow>
                  (Inl (Exn RuntimeError ''Failed to retrieve content from model response''), w1)
              | ch # chs \<Rightarrow>
                  (let json_response = content (message ch)
                   in case model_validate_json response_model json_response of
                        Inr parsed \<Rightarrow> (Inr (PStr (model_dump_json response_model parsed)), w1)
                      | Inl ve \<Rightarrow>
                          if exn_class_of ve = ValidationError
                          then (Inl (Exn ValueError (''Invalid JSON structure: '' @ exn_str ve)), w1)
                          else if exn_class_of ve = JSONDecodeError
                          then (Inl (Exn ValueError (''Failed to decode JSON response: '' @ exn_str ve)), w1)
                          else (Inl ve, w1))))"

subsection \<open>\<open>LocalOpenaiClient._encode_image_to_data_uri\<close> and \<open>generate_with_images\<close>\<close>

type_synonym byte = "8 word"

definition b64_alphabet :: string where
  "b64_alphabet = ''ABCDEFGHIJKLMNOPQRSTUVWXYZabcdefghijklmnopqrstuvwxyz0123456789+/''"

definition b64_char :: "nat \<Rightarrow> char" where
  "b64_char i = b64_alphabet ! i"

text \<open>\<open>base64.b64encode\<close>: three bytes to four characters, the tail padded with \<open>=\<close>.\<close>

fun b64encode :: "byte list \<Rightarrow> string" where
  "b64encode (a # b # c # rest) =
     (let n = unat a * 65536 + unat b * 256 + unat c
      in [b64_char (n div 262144), b64_char (n div 4096 mod 64),
          b64_char (n div 64 mod 64), b64_char (n mod 64)] @ b64encode rest)"
| "b64encode [a, b] =
     (let n = unat a * 65536 + unat b * 256
      in [b64_char (n div 262144), b64_char (n div 4096 mod 64),
          b64_char (n div 64 mod 64), CHR ''=''])"
| "b64encode [a] =
     (let n = unat a * 65536
      in [b64_char (n div 262144), b64_char (n div 4096 mod 64), CHR ''='', CHR ''=''])"
| "b64encode [] = []"

text \<open>
  The inverse, \<open>base64.b64decode\<close> on well-formed text: four characters to three
  bytes, fewer at a padded tail. It is what the round trip is stated with; the adapter
  does not call it.
\<close>

fun index_of :: "'a list \<Rightarrow> 'a \<Rightarrow> nat" where
  "index_of [] x = 0"
| "index_of (y # ys) x = (if x = y then 0 else Suc (index_of ys x))"

definition b64_index :: "char \<Rightarrow> nat" where
  "b64_index ch = index_of b64_alphabet ch"

fun b64decode :: "string \<Rightarrow> byte list" where
  "b64decode (c1 # c2 # c3 # c4 # rest) =
     (let n = b64_index c1 * 262144 + b64_index c2 * 4096
              + (if c3 = CHR ''='' then 0 else b64_index c3) * 64
              + (if c4 = CHR ''='' then 0 else b64_index c4)
      in if c3 = CHR ''='' then [of_nat (n div 65536)]
         else if c4 = CHR ''='' then [of_nat (n div 65536), of_nat (n div 256 mod 256)]
         else [of_nat (n div 65536), of_nat (n div 256 mod 256), of_nat (n mod 256)]
              @ b64decode rest)"
| "b64decode s = []"

definition digit_char :: "nat \<Rightarrow> char" where
  "digit_char d = ''0123456789'' ! d"

fun show_nat :: "nat \<Rightarrow> string" where
  "show_nat n =
     (if n < 10 then [digit_char n]
      else show_nat (n div 10) @ [digit_char (n mod 10)])"

declare show_nat.simps [simp del]

text \<open>
  The function is declared in the class body with the one parameter \<open>self\<close>, which it
  uses as the path to open, and carries no \<open>staticmethod\<close> decorator. It receives its
  positional arguments as a list: with one argument the body runs (reading the file
  through \<open>files\<close>, which answers \<open>open(path, "rb").read()\<close>), with any other number
  the call raises \<open>TypeError\<close> before the body is entered.
\<close>

definition encode_image_to_data_uri ::
  "(string \<Rightarrow> py_exception + byte list) \<Rightarrow> py_value list \<Rightarrow> py_exception + string" where
  "encode_image_to_data_uri files args =
     (case args of
        [self] \<Rightarrow>
          (case self of
             PStr path \<Rightarrow>
               (case files path of
                  Inl e \<Rightarrow>
                    Inl (Exn RuntimeError
                      (''Failed to encode image '' @ quote path @ '': '' @ exn_str e))
                | Inr img \<Rightarrow> Inr (''data:image/jpeg;base64,'' @ b64encode img))
           | other \<Rightarrow>
               Inl (Exn RuntimeError
                 (''Failed to encode image: expected str, bytes or os.PathLike object'')))
      | other \<Rightarrow>
          Inl (Exn TypeError
            (''LocalOpenaiClient._encode_image_to_data_uri() takes 1 positional argument but ''
               @ show_nat (length args) @ '' were given'')))"

text \<open>
  The loop of \<open>generate_with_images\<close> over the image paths. The call
  \<open>self._encode_image_to_data_uri(img_path)\<close> goes through the instance, so the
  function is handed two positional arguments: the instance and the path.
\<close>

fun image_parts ::
  "(string \<Rightarrow> py_exception + byte list) \<Rightarrow> string list \<Rightarrow> py_value list
     \<Rightarrow> py_exception + py_value list" where
  "image_parts files [] content_elements = Inr content_elements"
| "image_parts files (img_path # rest) content_elements =
     (case encode_image_to_data_uri files [PObj ''LocalOpenaiClient'', PStr img_path] of
        Inl e \<Rightarrow> Inl e
      | Inr data_uri \<Rightarrow>
          image_parts files rest
            (content_elements @
               [PDict [(''type'', PStr ''image_url''),
                       (''image_url'', PDict [(''url'', PStr data_uri)])]]))"

text \<open>\<open>str.strip()\<close>: the white space of Latin-1 is removed at both ends.\<close>

definition is_space :: "char \<Rightarrow> bool" where
  "is_space ch =
     (let n = (of_char ch :: nat)
      in (9 \<le> n \<and> n \<le> 13) \<or> (28 \<le> n \<and> n \<le> 32) \<or> n = 133 \<or> n = 160)"

definition py_strip :: "string \<Rightarrow> string" where
  "py_strip s = rev (dropWhile is_space (rev (dropWhile is_space s)))"

definition generate_with_images ::
  "llm_client \<Rightarrow> openai \<Rightarrow> (string \<Rightarrow> py_exception + byte list) \<Rightarrow> string \<Rightarrow> string list option
     \<Rightarrow> string \<Rightarrow> int \<Rightarrow> real \<Rightarrow> (py_exception + string) \<times> openai" where
  "generate_with_images self w files prompt images system_prompt max_tokens temperature =
     (let images1 = (case images of None \<Rightarrow> [] | Some paths \<Rightarrow> paths);
          messages =
            (if system_prompt \<noteq> []
             then [PDict [(''role'', PStr ''system''), (''content'', PStr system_prompt)]]
             else [])
      in case image_parts files images1 [PDict [(''type'', PStr ''text''), (''text'', PStr prompt)]] of
           Inl e \<Rightarrow>
             (Inl (Exn RuntimeError (''server generate_with_images request failed: '' @ exn_str e)), w)
         | Inr content_elements \<Rightarrow>
             (case chat_completions_create
                     [(''model'', PStr (model_name self)),
                      (''messages'',
                         PList (messages @ [PDict [(''role'', PStr ''user''),
                                                   (''content'', PList content_elements)]])),
                      (''max_tokens'', PInt max_tokens),
                      (''temperature'', PFloat temperature)] [] w of
                (Inl e, w1) \<Rightarrow>
                  (Inl (Exn RuntimeError
                     (''server generate_with_images request failed: '' @ exn_str e)), w1)
              | (Inr response, w1) \<Rightarrow>
                  (case choices response of
                     [] \<Rightarrow>
                       (Inl (Exn RuntimeError
                          (''Failed to parse server generate_with_images response: ''
                             @ ''list index out of range'')), w1)
                   | ch # chs \<Rightarrow>
                       (case content (message ch) of
                          None \<Rightarrow>
                            (Inl (Exn RuntimeError
                               (''Failed to parse server generate_with_images response: ''
                                  @ quote ''NoneType'' @ '' object has no attribute '' @ quote ''strip'')), w1)
                        | Some text \<Rightarrow> (Inr (py_strip text), w1)))))"

subsection \<open>\<open>OpenaiClient.generate\<close>\<close>

text \<open>The variant for the OpenAI endpoint: on a failed request it sleeps 60 seconds, then raises.\<close>

definition OpenaiClient_generate ::
  "llm_client \<Rightarrow> openai \<Rightarrow> string \<Rightarrow> string \<Rightarrow> py_dict
     \<Rightarrow> (py_exception + string option) \<times> openai" where
  "OpenaiClient_generate self w prompt system_prompt kwargs =
     (let messages =
            (if system_prompt \<noteq> []
             then [PDict [(''role'', PStr ''system''), (''content'', PStr system_prompt)]]
             else [])
            @ [PDict [(''role'', PStr ''user''),
                      (''content'', PList [PDict [(''type'', PStr ''text''), (''text'', PStr prompt)]])]]
      in case chat_completions_create
                [(''model'', PStr (model_name self)),
                 (''messages'', PList messages),
                 (''temperature'', PFloat 0)] kwargs w of
           (Inl e, w1) \<Rightarrow>
             (Inl (Exn RuntimeError (''OpenAi generate request failed: '' @ exn_str e)),
              w1\<lparr>trace := trace w1 @ [Sleep 60]\<rparr>)
         | (Inr response, w1) \<Rightarrow>
             (case choices response of
                [] \<Rightarrow>
                  (Inl (Exn RuntimeError
                     (''Failed to parse OpenAI generate response: list index out of range'')), w1)
              | ch # chs \<Rightarrow> (Inr (content (message ch)), w1)))"

subsection \<open>The requests the methods are to send\<close>

text \<open>
  The messages as the specification words them: a system message carries the system
  prompt as its content, a user message carries the prompt as one text part
  (\<open>generate\<close>) or as plain text (\<open>generate_json\<close>).
\<close>

definition system_message :: "string \<Rightarrow> py_value" where
  "system_message text = PDict [(''role'', PStr ''system''), (''content'', PStr text)]"

definition user_text_message :: "string \<Rightarrow> py_value" where
  "user_text_message prompt =
     PDict [(''role'', PStr ''user''),
            (''content'', PList [PDict [(''type'', PStr ''text''), (''text'', PStr prompt)]])]"

definition user_plain_message :: "string \<Rightarrow> py_value" where
  "user_plain_message prompt = PDict [(''role'', PStr ''user''), (''content'', PStr prompt)]"

definition generate_request ::
  "llm_client \<Rightarrow> string \<Rightarrow> int \<Rightarrow> real \<Rightarrow> string \<Rightarrow> py_dict \<Rightarrow> py_dict" where
  "generate_request self prompt max_tokens temperature system_prompt kwargs =
     [(''model'', PStr (model_name self)),
      (''messages'', PList (if system_prompt \<noteq> []
                            then [system_message system_prompt, user_text_message prompt]
                            else [user_text_message prompt])),
      (''max_tokens'', PInt max_tokens),
      (''temperature'', PFloat temperature)] @ kwargs"

definition generate_json_request ::
  "llm_client \<Rightarrow> string \<Rightarrow> int \<Rightarrow> real \<Rightarrow> string \<Rightarrow> py_dict \<Rightarrow> py_dict" where
  "generate_json_request self prompt max_tokens temperature system_prompt kwargs =
     [(''model'', PStr (model_name self)),
      (''messages'', PList (if system_prompt \<noteq> []
                            then [system_message system_prompt, user_plain_message prompt]
                            else [user_plain_message prompt])),
      (''max_tokens'', PInt max_tokens),
      (''temperature'', PFloat temperature)] @ kwargs"

definition openai_generate_request :: "llm_client \<Rightarrow> string \<Rightarrow> string \<Rightarrow> py_dict \<Rightarrow> py_dict" where
  "openai_generate_request self prompt system_prompt kwargs =
     [(''model'', PStr (model_name self)),
      (''messages'', PList (if system_prompt \<noteq> []
                            then [system_message system_prompt, user_text_message prompt]
                            else [user_text_message prompt])),
      (''temperature'', PFloat 0)] @ kwargs"

text \<open>
  The outcome of the one chat-completion call \<open>generate_json\<close> makes: the \<open>TypeError\<close>
  of a repeated keyword, or what the endpoint does with the request.
\<close>

definition generate_json_call ::
  "llm_client \<Rightarrow> openai \<Rightarrow> string \<Rightarrow> int \<Rightarrow> real \<Rightarrow> string \<Rightarrow> py_dict
     \<Rightarrow> py_exception + chat_completion" where
  "generate_json_call self w prompt max_tokens temperature system_prompt kwargs =
     (case duplicate_keyword [''model'', ''messages'', ''max_tokens'', ''temperature''] kwargs of
        Some k \<Rightarrow>
          Inl (Exn TypeError (''create() got multiple values for keyword argument '' @ quote k))
      | None \<Rightarrow>
          endpoint w (trace w)
            (generate_json_request self prompt max_tokens temperature system_prompt kwargs))"

text \<open>
  The outcome of the one chat-completion call \<open>OpenaiClient.generate\<close> makes: the
  \<open>TypeError\<close> of a repeated keyword, or what the endpoint does with the request.
\<close>

definition openai_generate_call ::
  "llm_client \<Rightarrow> openai \<Rightarrow> string \<Rightarrow> string \<Rightarrow> py_dict \<Rightarrow> py_exception + chat_completion" where
  "openai_generate_call self w prompt system_prompt kwargs =
     (case duplicate_keyword [''model'', ''messages'', ''temperature''] kwargs of
        Some k \<Rightarrow>
          Inl (Exn TypeError (''create() got multiple values for keyword argument '' @ quote k))
      | None \<Rightarrow>
          endpoint w (trace w) (openai_generate_request self prompt system_prompt kwargs))"

subsection \<open>A concrete endpoint, response model and disk for the instances\<close>

definition local_client :: llm_client where
  "local_client = \<lparr>api_key = ''EMPTY'', model_name = ''qwen'', base_url = ''http://localhost:8000/v1''\<rparr>"

text \<open>An endpoint that answers every request with one choice holding the given text.\<close>

definition replying :: "string \<Rightarrow> openai" where
  "replying text =
     \<lparr>endpoint = (\<lambda>evs kw. Inr \<lparr>choices = [\<lparr>message = \<lparr>content = Some text\<rparr>\<rparr>]\<rparr>),
      trace = []\<rparr>"

text \<open>An endpoint that refuses every request.\<close>

definition refusing :: openai where
  "refusing = \<lparr>endpoint = (\<lambda>evs kw. Inl (Exn OtherException ''Connection error.'')), trace = []\<rparr>"

text \<open>
  A response model for \<open>class SchemaA(BaseModel): a: int\<close>. Its validator reads an
  object with the one member \<open>a\<close>, an integer, white space allowed between the tokens,
  and raises \<open>ValidationError\<close> on any other text; its serialiser writes the compact
  form.
\<close>

definition dquote :: "string \<Rightarrow> string" where
  "dquote s = [CHR 0x22] @ s @ [CHR 0x22]"

definition json_ws :: "char \<Rightarrow> bool" where
  "json_ws ch = (ch = CHR 0x20 \<or> ch = CHR 0x09 \<or> ch = CHR 0x0A \<or> ch = CHR 0x0D)"

definition is_digit :: "char \<Rightarrow> bool" where
  "is_digit ch = (48 \<le> (of_char ch :: nat) \<and> (of_char ch :: nat) \<le> 57)"

fun strip_prefix :: "string \<Rightarrow> string \<Rightarrow> string option" where
  "strip_prefix [] s = Some s"
| "strip_prefix (p # ps) [] = None"
| "strip_prefix (p # ps) (ch # s) = (if p = ch then strip_prefix ps s else None)"

definition SchemaA_number :: "string \<Rightarrow> (int \<times> string) option" where
  "SchemaA_number s =
     (let negative = (case s of [] \<Rightarrow> False | ch # rest \<Rightarrow> ch = CHR ''-'');
          body = (if negative then tl s else s);
          ds = takeWhile is_digit body
      in if ds = [] \<or> (1 < length ds \<and> hd ds = CHR ''0'') then None
         else (case decimal ds 0 of
                 None \<Rightarrow> None
               | Some n \<Rightarrow> Some (if negative then - n else n, dropWhile is_digit body)))"

definition SchemaA_parse :: "string \<Rightarrow> int option" where
  "SchemaA_parse text =
     (case strip_prefix ''{'' (dropWhile json_ws text) of
        None \<Rightarrow> None
      | Some s1 \<Rightarrow>
     (case strip_prefix (dquote ''a'') (dropWhile json_ws s1) of
        None \<Rightarrow> None
      | Some s2 \<Rightarrow>
     (case strip_prefix '':'' (dropWhile json_ws s2) of
        None \<Rightarrow> None
      | Some s3 \<Rightarrow>
     (case SchemaA_number (dropWhile json_ws s3) of
        None \<Rightarrow> None
      | Some (a, s4) \<Rightarrow>
     (case strip_prefix ''}'' (dropWhile json_ws s4) of
        None \<Rightarrow> None
      | Some s5 \<Rightarrow> if dropWhile json_ws s5 = [] then Some a else None)))))"

definition show_int :: "int \<Rightarrow> string" where
  "show_int n = (if n < 0 then ''-'' @ show_nat (nat (- n)) else show_nat (nat n))"

definition SchemaA :: "int response_model" where
  "SchemaA =
     \<lparr>model_validate_json =
        (\<lambda>json_data. case json_data of
           None \<Rightarrow> Inl (Exn ValidationError ''JSON input should be string, bytes or bytearray'')
         | Some text \<Rightarrow>
             (case SchemaA_parse text of
                None \<Rightarrow> Inl (Exn ValidationError ''1 validation error for SchemaA'')
              | Some a \<Rightarrow> Inr a)),
      model_dump_json = (\<lambda>a. ''{'' @ dquote ''a'' @ '':'' @ show_int a @ ''}''),
      model_dump = (\<lambda>a. [(''a'', PInt a)])\<rparr>"

text \<open>A disk with one readable file of three bytes.\<close>

definition disk :: "string \<Rightarrow> py_exception + byte list" where
  "disk path =
     (if path = ''cat.jpg'' then Inr [77, 97, 110]
      else Inl (Exn OSError (''[Errno 2] No such file or directory: '' @ quote path)))"

section \<open>Properties of the vector store adapter\<close>

subsection \<open>The client's bookkeeping\<close>

lemma issue_calls: "calls (snd (issue call c)) = calls c @ [call]"
  by (simp add: issue_def Let_def split: list.splits)

lemma issue_hits: "hits (snd (issue call c)) = hits c"
  by (simp add: issue_def Let_def split: list.splits)

lemma client_upsert_calls:
  "calls (snd (client_upsert name pts c)) = calls c @ [Upsert name pts]"
  using issue_calls[of "Upsert name pts" c]
  by (cases "issue (Upsert name pts) c") (auto simp: client_upsert_def split: option.splits)

subsection \<open>Point construction\<close>

lemma build_points_ok:
  "(\<And>r. r \<in> set rs \<Longrightarrow> \<exists>p. make_point L r = Inr p)
   \<Longrightarrow> build_points L rs acc = Inr (acc @ map (\<lambda>r. projr (make_point L r)) rs)"
proof (induction rs arbitrary: acc)
  case Nil
  show ?case by simp
next
  case (Cons r rs)
  from Cons.prems[of r] obtain p where p: "make_point L r = Inr p" by auto
  have "build_points L rs (acc @ [p]) = Inr ((acc @ [p]) @ map (\<lambda>r. projr (make_point L r)) rs)"
    by (rule Cons.IH) (simp add: Cons.prems)
  with p show ?case by simp
qed



subsection \<open>Claims about \<open>add_records\<close>\<close>

text \<open>
  C2, as amended. \<open>add_records\<close> on the empty list raises the \<open>ValueError\<close> and leaves
  the client as it was, so no call reaches it. On a non-empty list whose records all
  convert to points it issues exactly one call, a bulk upsert of all the points in the
  order of the records.
\<close>

theorem add_records_empty_or_one_upsert:
  "add_records L self c [] = (Inl (Exn ValueError ''No records provided for upsert.''), c)
   \<and> (records \<noteq> [] \<and> (\<forall>r \<in> set records. \<exists>p. make_point L r = Inr p)
        \<longrightarrow> calls (snd (add_records L self c records))
              = calls c @ [Upsert (collection_name self) (map (\<lambda>r. projr (make_point L r)) records)])"
proof (intro conjI impI)
  show "add_records L self c [] = (Inl (Exn ValueError ''No records provided for upsert.''), c)"
    by (simp add: add_records_def)
next
  assume a: "records \<noteq> [] \<and> (\<forall>r \<in> set records. \<exists>p. make_point L r = Inr p)"
  then have "build_points L records [] = Inr ([] @ map (\<lambda>r. projr (make_point L r)) records)"
    by (intro build_points_ok) blast
  with a client_upsert_calls[of "collection_name self" "map (\<lambda>r. projr (make_point L r)) records" c]
  show "calls (snd (add_records L self c records))
        = calls c @ [Upsert (collection_name self) (map (\<lambda>r. projr (make_point L r)) records)]"
    by (cases "client_upsert (collection_name self) (map (\<lambda>r. projr (make_point L r)) records) c")
       (auto simp: add_records_def split: sum.splits)
qed

theorem add_records_empty_or_one_upsert_witness:
  "add_records sample_lib docs fresh_client []
     = (Inl (Exn ValueError ''No records provided for upsert.''), fresh_client)
   \<and> calls (snd (add_records sample_lib docs fresh_client
        [[(''id'', PInt 1), (''vector'', PList [PFloat 0, PFloat 1])],
         [(''id'', PStr ''42''), (''vector'', PList [PFloat 1, PFloat 0]),
          (''payload'', PDict [(''lang'', PStr ''ru'')])]]))
     = [Upsert ''docs''
         [\<lparr>point_id = 1, point_vector = PList [PFloat 0, PFloat 1], point_payload = PDict []\<rparr>,
          \<lparr>point_id = 42, point_vector = PList [PFloat 1, PFloat 0],
           point_payload = PDict [(''lang'', PStr ''ru'')]\<rparr>]]"
  using add_records_empty_or_one_upsert[of sample_lib docs fresh_client
        "[[(''id'', PInt 1), (''vector'', PList [PFloat 0, PFloat 1])],
          [(''id'', PStr ''42''), (''vector'', PList [PFloat 1, PFloat 0]),
           (''payload'', PDict [(''lang'', PStr ''ru'')])]]"]
  by (simp add: make_point_def py_getitem_def py_get_def sample_lib_def docs_def fresh_client_def)

text \<open>
  C2 as stated fails: a non-empty list with a record that has no \<open>id\<close> raises the
  \<open>KeyError\<close> of the lookup and no upsert call is issued.
\<close>

theorem add_records_one_upsert_counterexample:
  "[[(''vector'', PList [PFloat 0, PFloat 1])]] \<noteq> []
   \<and> add_records sample_lib docs fresh_client [[(''vector'', PList [PFloat 0, PFloat 1])]]
       = (Inl (Exn KeyError (quote ''id'')), fresh_client)
   \<and> upsert_calls (snd (add_records sample_lib docs fresh_client
         [[(''vector'', PList [PFloat 0, PFloat 1])]])) = 0"
  by (simp add: add_records_def make_point_def py_getitem_def upsert_calls_def fresh_client_def)






subsection \<open>Claims about \<open>search\<close>\<close>

lemma search_success:
  "search self c qv k f st = (Inr out, c')
   \<Longrightarrow> out = map result_of_point (hits c (search_request self qv k st))"
  using issue_hits[of "Search (search_request self qv k st)" c]
  by (cases "issue (Search (search_request self qv k st)) c")
     (auto simp: search_def client_search_def split: option.splits)

text \<open>
  C3. Two runs of \<open>search\<close> that differ in the filter argument only return the same
  result and leave the client in the same state, and the one request they issue has
  the four keywords \<open>collection_name\<close>, \<open>query_vector\<close>, \<open>limit\<close> and
  \<open>score_threshold\<close>: the filter is in none of them.
\<close>

theorem search_ignores_filter:
  "search self c qv k f1 st = search self c qv k f2 st
   \<and> calls (snd (search self c qv k f1 st)) = calls c @ [Search (search_request self qv k st)]
   \<and> map fst (search_request self qv k st)
       = [''collection_name'', ''query_vector'', ''limit'', ''score_threshold'']"
proof -
  have "calls (snd (search self c qv k f1 st)) = calls c @ [Search (search_request self qv k st)]"
    using issue_calls[of "Search (search_request self qv k st)" c]
    by (cases "issue (Search (search_request self qv k st)) c")
       (auto simp: search_def client_search_def split: option.splits)
  then show ?thesis by (simp add: search_def search_request_def)
qed

text \<open>
  C4. Whenever \<open>search\<close> returns, and the store answered the request (which carries the
  threshold) with points by descending score, all at or above the threshold when one
  was given, the result is the list of the dictionaries with the keys \<open>id\<close>,
  \<open>payload\<close> and \<open>score\<close> of those points, in the same order: its scores are
  non-increasing and none is below the threshold.
\<close>

theorem search_ordered_above_threshold:
  assumes ok: "search self c qv k f st = (Inr out, c')"
      and desc: "sorted_wrt (\<lambda>a b. sp_score b \<le> sp_score a)
                   (hits c [(''collection_name'', PStr (collection_name self)),
                            (''query_vector'', qv),
                            (''limit'', PInt k),
                            (''score_threshold'', (case st of None \<Rightarrow> PNone | Some t \<Rightarrow> PFloat t))])"
      and thr: "\<forall>t. st = Some t \<longrightarrow>
                  (\<forall>p \<in> set (hits c [(''collection_name'', PStr (collection_name self)),
                                       (''query_vector'', qv),
                                       (''limit'', PInt k),
                                       (''score_threshold'', (case st of None \<Rightarrow> PNone | Some t \<Rightarrow> PFloat t))]).
                     t \<le> sp_score p)"
  shows "out = map (\<lambda>p. PDict [(''id'', sp_id p), (''payload'', sp_payload p),
                               (''score'', PFloat (sp_score p))])
                 (hits c [(''collection_name'', PStr (collection_name self)),
                          (''query_vector'', qv),
                          (''limit'', PInt k),
                          (''score_threshold'', (case st of None \<Rightarrow> PNone | Some t \<Rightarrow> PFloat t))])
         \<and> (\<exists>scores. map result_score out = map Some scores
                \<and> sorted_wrt (\<lambda>a b. b \<le> a) scores
                \<and> (\<forall>t. st = Some t \<longrightarrow> (\<forall>s \<in> set scores. t \<le> s)))"
proof -
  let ?req = "[(''collection_name'', PStr (collection_name self)),
               (''query_vector'', qv),
               (''limit'', PInt k),
               (''score_threshold'', (case st of None \<Rightarrow> PNone | Some t \<Rightarrow> PFloat t))]"
  let ?pts = "hits c ?req"
  have req: "search_request self qv k st = ?req" by (simp add: search_request_def)
  have "out = map result_of_point ?pts"
    using search_success[OF ok] by (simp only: req)
  then have out: "out = map (\<lambda>p. PDict [(''id'', sp_id p), (''payload'', sp_payload p),
                               (''score'', PFloat (sp_score p))]) ?pts"
    by (simp add: result_of_point_def)
  have 1: "map result_score out = map Some (map sp_score ?pts)"
    by (simp add: out comp_def)
  have 2: "sorted_wrt (\<lambda>a b. b \<le> a) (map sp_score ?pts)"
    using desc by (simp add: sorted_wrt_map)
  have 3: "\<forall>t. st = Some t \<longrightarrow> (\<forall>s \<in> set (map sp_score ?pts). t \<le> s)"
    using thr by auto
  from out 1 2 3 show ?thesis by blast
qed

theorem search_ordered_above_threshold_witness:
  "fst (search docs answering_client (PList [PFloat 1, PFloat 0]) 10 PNone (Some (1 / 2)))
     = Inr [PDict [(''id'', PInt 7), (''payload'', PDict []), (''score'', PFloat (9 / 10))],
            PDict [(''id'', PInt 3), (''payload'', PNone), (''score'', PFloat (3 / 4))]]
   \<and> map result_score
        (projr (fst (search docs answering_client (PList [PFloat 1, PFloat 0]) 10 PNone (Some (1 / 2)))))
     = [Some (9 / 10), Some (3 / 4)]"
proof -
  let ?run = "search docs answering_client (PList [PFloat 1, PFloat 0]) 10 PNone (Some (1 / 2))"
  let ?req = "[(''collection_name'', PStr (collection_name docs)),
               (''query_vector'', PList [PFloat 1, PFloat 0]),
               (''limit'', PInt 10),
               (''score_threshold'', (case Some (1 / 2) of None \<Rightarrow> PNone | Some t \<Rightarrow> PFloat t))]"
  have ok: "?run = (Inr (projr (fst ?run)), snd ?run)"
    by (simp add: search_def client_search_def issue_def answering_client_def)
  have desc: "sorted_wrt (\<lambda>a b. sp_score b \<le> sp_score a) (hits answering_client ?req)"
    by (simp add: answering_client_def)
  have thr: "\<forall>t. Some (1 / 2) = Some t \<longrightarrow>
               (\<forall>p \<in> set (hits answering_client ?req). t \<le> sp_score p)"
    by (simp add: answering_client_def)
  from search_ordered_above_threshold[OF ok desc thr]
  have out: "projr (fst ?run)
        = map (\<lambda>p. PDict [(''id'', sp_id p), (''payload'', sp_payload p),
                           (''score'', PFloat (sp_score p))]) (hits answering_client ?req)"
    by blast
  have isr: "fst ?run = Inr (projr (fst ?run))" using ok by (metis fst_conv)
  from out isr show ?thesis by (simp add: answering_client_def)
qed

subsection \<open>Claims about \<open>create_collection\<close>\<close>

lemma create_collection_calls:
  "calls (snd (create_collection self c))
     = calls c @ GetCollections #
         (if next_call_ok c \<and> collection_name self \<notin> set (stored c)
          then [CreateCollection (collection_name self) (vector_size self) (distance self)]
          else [])"
  by (auto simp: create_collection_def client_get_collections_def client_create_collection_def
        issue_def Let_def next_call_ok_def split: list.splits option.splits)

lemma create_collection_stored:
  "create_collection self c = (Inr (), c1) \<Longrightarrow> collection_name self \<in> set (stored c1)"
  by (auto simp: create_collection_def client_get_collections_def client_create_collection_def
        issue_def Let_def split: list.splits option.splits if_splits)

lemma creation_calls_step:
  "creation_calls (snd (create_collection self c))
     = creation_calls c + (if next_call_ok c \<and> collection_name self \<notin> set (stored c) then 1 else 0)"
  by (simp add: creation_calls_def create_collection_calls)

text \<open>
  C5, as amended. One invocation lists the collections and then issues the creation
  call exactly when the listing succeeded and the name is not in it. Two invocations
  in a row issue at most one creation call in total whenever the first one returned
  without error or issued no creation call, that is, unless the creation call of the
  first invocation itself failed.
\<close>

theorem create_collection_twice_one_creation:
  assumes first: "create_collection self c = (r1, c1)"
      and second: "create_collection self c1 = (r2, c2)"
      and sound: "r1 = Inr () \<or> creation_calls c1 = creation_calls c"
  shows "calls c1 = calls c @ GetCollections #
           (if next_call_ok c \<and> collection_name self \<notin> set (stored c)
            then [CreateCollection (collection_name self) (vector_size self) (distance self)]
            else [])
         \<and> creation_calls c2 \<le> creation_calls c + 1"
proof
  show "calls c1 = calls c @ GetCollections #
           (if next_call_ok c \<and> collection_name self \<notin> set (stored c)
            then [CreateCollection (collection_name self) (vector_size self) (distance self)]
            else [])"
    using create_collection_calls[of self c] first by simp
next
  have s1: "creation_calls c1
              = creation_calls c + (if next_call_ok c \<and> collection_name self \<notin> set (stored c) then 1 else 0)"
    using creation_calls_step[of self c] first by simp
  have s2: "creation_calls c2
              = creation_calls c1 + (if next_call_ok c1 \<and> collection_name self \<notin> set (stored c1) then 1 else 0)"
    using creation_calls_step[of self c1] second by simp
  from sound show "creation_calls c2 \<le> creation_calls c + 1"
  proof
    assume "r1 = Inr ()"
    with first have "collection_name self \<in> set (stored c1)"
      by (simp add: create_collection_stored)
    with s1 s2 show ?thesis by simp
  next
    assume "creation_calls c1 = creation_calls c"
    with s2 show ?thesis by simp
  qed
qed

theorem create_collection_twice_one_creation_witness:
  "calls (snd (create_collection docs fresh_client))
     = calls fresh_client @ GetCollections #
         (if next_call_ok fresh_client \<and> collection_name docs \<notin> set (stored fresh_client)
          then [CreateCollection (collection_name docs) (vector_size docs) (distance docs)]
          else [])
   \<and> creation_calls (snd (create_collection docs (snd (create_collection docs fresh_client))))
       \<le> creation_calls fresh_client + 1"
proof -
  let ?c1 = "snd (create_collection docs fresh_client)"
  have first: "create_collection docs fresh_client = (Inr (), ?c1)"
    by (simp add: create_collection_def client_get_collections_def client_create_collection_def
          issue_def fresh_client_def docs_def)
  have second: "create_collection docs ?c1
                  = (fst (create_collection docs ?c1), snd (create_collection docs ?c1))"
    by simp
  have sound: "Inr () = (Inr () :: py_exception + unit) \<or> creation_calls ?c1 = creation_calls fresh_client"
    by simp
  show ?thesis by (rule create_collection_twice_one_creation[OF first second sound])
qed

text \<open>
  C5 as stated fails: on a store whose first creation call raises, the second
  invocation finds the name still absent and issues the creation call again.
\<close>

theorem create_collection_twice_counterexample:
  "creation_calls (snd (create_collection docs (snd (create_collection docs flaky_client)))) = 2
   \<and> creation_calls flaky_client = 0
   \<and> fst (create_collection docs flaky_client)
       = Inl (Exn RuntimeError (''Failed to create collection '' @ quote ''docs'' @ '': timed out''))
   \<and> fst (create_collection docs (snd (create_collection docs flaky_client))) = Inr ()"
  by (simp add: create_collection_def client_get_collections_def client_create_collection_def
        issue_def flaky_client_def docs_def creation_calls_def)

section \<open>Properties of the LLM client adapters\<close>

subsection \<open>Sending a request\<close>

lemma requests_of_append: "requests_of (xs @ ys) = requests_of xs @ requests_of ys"
  by (induction xs rule: requests_of.induct) simp_all

lemma create_sent:
  "duplicate_keyword (map fst explicit) kwargs = None
   \<Longrightarrow> chat_completions_create explicit kwargs w
       = (endpoint w (trace w) (explicit @ kwargs),
          w\<lparr>trace := trace w @ [Create (explicit @ kwargs)]\<rparr>)"
  by (simp add: chat_completions_create_def)

lemma create_duplicate:
  "duplicate_keyword (map fst explicit) kwargs = Some k
   \<Longrightarrow> chat_completions_create explicit kwargs w
       = (Inl (Exn TypeError (''create() got multiple values for keyword argument '' @ quote k)), w)"
  by (simp add: chat_completions_create_def)

lemma local_generate_trace:
  "trace (snd (LocalOpenaiClient_generate self w prompt max_tokens temperature system_prompt kwargs))
     = trace w @
        (case duplicate_keyword [''model'', ''messages'', ''max_tokens'', ''temperature''] kwargs of
           None \<Rightarrow> [Create (generate_request self prompt max_tokens temperature system_prompt kwargs)]
         | Some k \<Rightarrow> [])"
  by (simp add: LocalOpenaiClient_generate_def Let_def chat_completions_create_def generate_request_def
        system_message_def user_text_message_def
        split: option.splits sum.splits list.splits)

lemma openai_generate_requests:
  "requests (snd (OpenaiClient_generate self w prompt system_prompt kwargs))
     = requests w @
        (case duplicate_keyword [''model'', ''messages'', ''temperature''] kwargs of
           None \<Rightarrow> [openai_generate_request self prompt system_prompt kwargs]
         | Some k \<Rightarrow> [])"
  by (simp add: OpenaiClient_generate_def Let_def chat_completions_create_def openai_generate_request_def
        system_message_def user_text_message_def requests_def requests_of_append
        split: option.splits sum.splits list.splits)

subsection \<open>Claims about \<open>generate\<close>\<close>

text \<open>
  C6. Whatever the endpoint answers, an invocation of \<open>generate\<close> (either variant)
  sends one request, and the \<open>messages\<close> of that request are, for a non-empty system
  prompt, exactly the system message with the prompt text followed by the user message
  wrapping the prompt as a text part, and for an empty system prompt the user message
  alone. (Nothing is sent when a keyword of \<open>kwargs\<close> repeats an explicit one.)
\<close>

theorem generate_sends_system_then_user:
  "requests (snd (LocalOpenaiClient_generate self w prompt max_tokens temperature system_prompt kwargs))
     = requests w @
        (case duplicate_keyword [''model'', ''messages'', ''max_tokens'', ''temperature''] kwargs of
           None \<Rightarrow> [generate_request self prompt max_tokens temperature system_prompt kwargs]
         | Some k \<Rightarrow> [])
   \<and> requests (snd (OpenaiClient_generate self w prompt system_prompt kwargs))
     = requests w @
        (case duplicate_keyword [''model'', ''messages'', ''temperature''] kwargs of
           None \<Rightarrow> [openai_generate_request self prompt system_prompt kwargs]
         | Some k \<Rightarrow> [])
   \<and> map_of (generate_request self prompt max_tokens temperature system_prompt kwargs) ''messages''
     = Some (PList
         (if system_prompt \<noteq> []
          then [PDict [(''role'', PStr ''system''), (''content'', PStr system_prompt)],
                PDict [(''role'', PStr ''user''),
                       (''content'', PList [PDict [(''type'', PStr ''text''), (''text'', PStr prompt)]])]]
          else [PDict [(''role'', PStr ''user''),
                       (''content'', PList [PDict [(''type'', PStr ''text''), (''text'', PStr prompt)]])]]))
   \<and> map_of (openai_generate_request self prompt system_prompt kwargs) ''messages''
     = map_of (generate_request self prompt max_tokens temperature system_prompt kwargs) ''messages''"
proof (intro conjI)
  show "requests (snd (LocalOpenaiClient_generate self w prompt max_tokens temperature system_prompt kwargs))
     = requests w @
        (case duplicate_keyword [''model'', ''messages'', ''max_tokens'', ''temperature''] kwargs of
           None \<Rightarrow> [generate_request self prompt max_tokens temperature system_prompt kwargs]
         | Some k \<Rightarrow> [])"
    by (simp add: requests_def local_generate_trace requests_of_append split: option.splits)
  show "requests (snd (OpenaiClient_generate self w prompt system_prompt kwargs))
     = requests w @
        (case duplicate_keyword [''model'', ''messages'', ''temperature''] kwargs of
           None \<Rightarrow> [openai_generate_request self prompt system_prompt kwargs]
         | Some k \<Rightarrow> [])"
    by (rule openai_generate_requests)
qed (simp_all add: generate_request_def openai_generate_request_def system_message_def
       user_text_message_def)

theorem generate_sends_system_then_user_witness:
  "requests (snd (LocalOpenaiClient_generate local_client (replying ''hi'') ''hello'' 10 0 ''be terse'' []))
     = [[(''model'', PStr ''qwen''),
         (''messages'', PList
            [PDict [(''role'', PStr ''system''), (''content'', PStr ''be terse'')],
             PDict [(''role'', PStr ''user''),
                    (''content'', PList [PDict [(''type'', PStr ''text''), (''text'', PStr ''hello'')]])]]),
         (''max_tokens'', PInt 10),
         (''temperature'', PFloat 0)]]
   \<and> requests (snd (OpenaiClient_generate local_client refusing ''hello'' [] []))
     = [[(''model'', PStr ''qwen''),
         (''messages'', PList
            [PDict [(''role'', PStr ''user''),
                    (''content'', PList [PDict [(''type'', PStr ''text''), (''text'', PStr ''hello'')]])]]),
         (''temperature'', PFloat 0)]]"
  using generate_sends_system_then_user[of local_client "replying ''hi''" "''hello''" 10 0 "''be terse''" "[]"]
        generate_sends_system_then_user[of local_client refusing "''hello''" 10 0 "[]" "[]"]
  by (simp add: duplicate_keyword_def generate_request_def openai_generate_request_def
        system_message_def user_text_message_def requests_def replying_def refusing_def
        local_client_def)

lemma openai_generate_call_outcome:
  "fst (chat_completions_create
          [(''model'', PStr (model_name self)),
           (''messages'', PList (if system_prompt \<noteq> []
                                 then [system_message system_prompt, user_text_message prompt]
                                 else [user_text_message prompt])),
           (''temperature'', PFloat 0)] kwargs w)
     = openai_generate_call self w prompt system_prompt kwargs"
  by (simp add: chat_completions_create_def openai_generate_call_def openai_generate_request_def
        split: option.splits)

text \<open>
  C8, as amended. In the variant for the OpenAI endpoint, an invocation whose
  chat-completion call fails never re-attempts it: the trace grows by the one request
  when the call reached the client (by nothing when a keyword of \<open>kwargs\<close> repeats an
  explicit one and the call raised before it was entered), then by the pause of 60
  seconds, and the invocation returns the \<open>RuntimeError\<close> that wraps the failure. No
  result is produced.
\<close>

theorem openai_generate_failure_no_retry:
  assumes "openai_generate_call self w prompt system_prompt kwargs = Inl e"
  shows "OpenaiClient_generate self w prompt system_prompt kwargs
           = (Inl (Exn RuntimeError (''OpenAi generate request failed: '' @ exn_str e)),
              w\<lparr>trace := trace w
                   @ (case duplicate_keyword [''model'', ''messages'', ''temperature''] kwargs of
                        None \<Rightarrow> [Create (openai_generate_request self prompt system_prompt kwargs)]
                      | Some k \<Rightarrow> [])
                   @ [Sleep 60]\<rparr>)"
proof (cases "duplicate_keyword [''model'', ''messages'', ''temperature''] kwargs")
  case None
  with assms have "endpoint w (trace w) (openai_generate_request self prompt system_prompt kwargs) = Inl e"
    by (simp add: openai_generate_call_def)
  with None show ?thesis
    by (cases "system_prompt = []")
       (simp_all add: OpenaiClient_generate_def Let_def chat_completions_create_def
          openai_generate_request_def system_message_def user_text_message_def)
next
  case (Some k)
  with assms have "e = Exn TypeError (''create() got multiple values for keyword argument '' @ quote k)"
    by (simp add: openai_generate_call_def)
  with Some show ?thesis
    by (simp add: OpenaiClient_generate_def Let_def chat_completions_create_def)
qed

theorem openai_generate_failure_no_retry_witness:
  "OpenaiClient_generate local_client refusing ''hello'' ''be terse'' []
     = (Inl (Exn RuntimeError ''OpenAi generate request failed: Connection error.''),
        refusing\<lparr>trace :=
          [Create [(''model'', PStr ''qwen''),
                   (''messages'', PList
                      [PDict [(''role'', PStr ''system''), (''content'', PStr ''be terse'')],
                       PDict [(''role'', PStr ''user''),
                              (''content'', PList [PDict [(''type'', PStr ''text''),
                                                          (''text'', PStr ''hello'')]])]]),
                   (''temperature'', PFloat 0)],
           Sleep 60]\<rparr>)"
proof -
  have 1: "openai_generate_call local_client refusing ''hello'' ''be terse'' []
             = Inl (Exn OtherException ''Connection error.'')"
    by (simp add: openai_generate_call_def duplicate_keyword_def refusing_def)
  show ?thesis
    using openai_generate_failure_no_retry[OF 1]
    by (simp add: duplicate_keyword_def openai_generate_request_def system_message_def
          user_text_message_def refusing_def local_client_def)
qed

text \<open>
  C8 as stated fails: with \<open>temperature\<close> among the keyword arguments the call raises
  \<open>TypeError\<close> before the client is entered. The invocation fails, sleeps and raises
  the \<open>RuntimeError\<close>, and the client has received no call at all, not exactly one.
\<close>

theorem openai_generate_one_call_counterexample:
  "openai_generate_call local_client (replying ''hi'') ''hello'' [] [(''temperature'', PFloat (7 / 10))]
     = Inl (Exn TypeError
         (''create() got multiple values for keyword argument '' @ quote ''temperature''))
   \<and> fst (OpenaiClient_generate local_client (replying ''hi'') ''hello'' []
            [(''temperature'', PFloat (7 / 10))])
     = Inl (Exn RuntimeError
         (''OpenAi generate request failed: create() got multiple values for keyword argument ''
            @ quote ''temperature''))
   \<and> trace (snd (OpenaiClient_generate local_client (replying ''hi'') ''hello'' []
            [(''temperature'', PFloat (7 / 10))])) = [Sleep 60]
   \<and> requests (snd (OpenaiClient_generate local_client (replying ''hi'') ''hello'' []
            [(''temperature'', PFloat (7 / 10))])) = []"
  by (simp add: openai_generate_call_def OpenaiClient_generate_def Let_def chat_completions_create_def
        duplicate_keyword_def requests_def replying_def)

subsection \<open>Claims about \<open>generate_json\<close>\<close>

lemma generate_json_unfold:
  "fst (generate_json self w prompt max_tokens R temperature system_prompt kwargs)
     = (case generate_json_call self w prompt max_tokens temperature system_prompt kwargs of
          Inl e \<Rightarrow> Inl (Exn RuntimeError (''server generate_json request failed: '' @ exn_str e))
        | Inr response \<Rightarrow>
            (case choices response of
               [] \<Rightarrow> Inl (Exn RuntimeError ''Failed to retrieve content from model response'')
             | ch # chs \<Rightarrow>
                 (case model_validate_json R (content (message ch)) of
                    Inr parsed \<Rightarrow> Inr (PStr (model_dump_json R parsed))
                  | Inl ve \<Rightarrow>
                      if exn_class_of ve = ValidationError
                      then Inl (Exn ValueError (''Invalid JSON structure: '' @ exn_str ve))
                      else if exn_class_of ve = JSONDecodeError
                      then Inl (Exn ValueError (''Failed to decode JSON response: '' @ exn_str ve))
                      else Inl ve)))"
  by (cases "system_prompt = []")
     (simp_all add: generate_json_def generate_json_call_def Let_def chat_completions_create_def
        generate_json_request_def system_message_def user_plain_message_def
        split: option.splits sum.splits list.splits)




text \<open>
  What a successful \<open>generate_json\<close> returns is the text \<open>model_dump_json\<close> wrote, a
  string: it is never a dictionary, and so never the validated object itself.
\<close>

lemma generate_json_returns_text:
  assumes "generate_json_call self w prompt max_tokens temperature system_prompt kwargs = Inr response"
      and "choices response = ch # chs"
      and "model_validate_json R (content (message ch)) = Inr parsed"
  shows "fst (generate_json self w prompt max_tokens R temperature system_prompt kwargs)
           = Inr (PStr (model_dump_json R parsed))"
    and "fst (generate_json self w prompt max_tokens R temperature system_prompt kwargs)
           \<noteq> Inr (PDict (model_dump R parsed))"
  using assms by (simp_all add: generate_json_unfold)

text \<open>
  C1, on the code. The endpoint answers with the text \<open>{"a": 1}\<close> and the schema
  declares the integer field \<open>a\<close>: the validator accepts the text as the object with
  \<open>a = 1\<close>, whose dictionary is \<open>{"a": 1}\<close>, and \<open>generate_json\<close> returns the string
  \<open>{"a":1}\<close> instead of that dictionary.
\<close>

theorem generate_json_returns_serialized_form:
  "model_validate_json SchemaA (Some (''{'' @ dquote ''a'' @ '': 1}'')) = Inr 1
   \<and> model_dump SchemaA 1 = [(''a'', PInt 1)]
   \<and> fst (generate_json local_client (replying (''{'' @ dquote ''a'' @ '': 1}'')) ''give a'' 16 SchemaA 0 [] [])
       = Inr (PStr (''{'' @ dquote ''a'' @ '':1}''))
   \<and> fst (generate_json local_client (replying (''{'' @ dquote ''a'' @ '': 1}'')) ''give a'' 16 SchemaA 0 [] [])
       \<noteq> Inr (PDict [(''a'', PInt 1)])"
proof -
  have v: "model_validate_json SchemaA (Some (''{'' @ dquote ''a'' @ '': 1}'')) = Inr 1"
    by (simp add: SchemaA_def SchemaA_parse_def SchemaA_number_def dquote_def json_ws_def
          is_digit_def)
  have d: "model_dump_json SchemaA 1 = ''{'' @ dquote ''a'' @ '':1}''"
    by (simp add: SchemaA_def show_int_def show_nat.simps digit_char_def)
  have c: "generate_json_call local_client (replying (''{'' @ dquote ''a'' @ '': 1}'')) ''give a'' 16 0 [] []
             = Inr \<lparr>choices = [\<lparr>message = \<lparr>content = Some (''{'' @ dquote ''a'' @ '': 1}'')\<rparr>\<rparr>]\<rparr>"
    by (simp add: generate_json_call_def duplicate_keyword_def replying_def)
  have r: "fst (generate_json local_client (replying (''{'' @ dquote ''a'' @ '': 1}'')) ''give a'' 16 SchemaA 0 [] [])
             = Inr (PStr (model_dump_json SchemaA 1))"
  proof (rule generate_json_returns_text(1)[OF c])
    show "choices \<lparr>choices = [\<lparr>message = \<lparr>content = Some (''{'' @ dquote ''a'' @ '': 1}'')\<rparr>\<rparr>]\<rparr>
            = \<lparr>message = \<lparr>content = Some (''{'' @ dquote ''a'' @ '': 1}'')\<rparr>\<rparr> # []"
      by simp
    show "model_validate_json SchemaA
            (content (message \<lparr>message = \<lparr>content = Some (''{'' @ dquote ''a'' @ '': 1}'')\<rparr>\<rparr>)) = Inr 1"
      using v by simp
  qed
  from v d r show ?thesis by (simp add: SchemaA_def)
qed

subsection \<open>Base64 round trip\<close>

lemma index_of_nth: "distinct xs \<Longrightarrow> i < length xs \<Longrightarrow> index_of xs (xs ! i) = i"
proof (induction xs arbitrary: i)
  case Nil
  then show ?case by simp
next
  case (Cons y ys)
  show ?case
  proof (cases i)
    case 0
    then show ?thesis by simp
  next
    case (Suc j)
    with Cons.prems have "j < length ys" "ys ! j \<in> set ys" "y \<notin> set ys" by auto
    then have "ys ! j \<noteq> y" by auto
    with Suc Cons show ?thesis by simp
  qed
qed

lemma b64_alphabet_distinct: "distinct b64_alphabet"
  by (simp add: b64_alphabet_def)

lemma b64_alphabet_length: "length b64_alphabet = 64"
  by (simp add: b64_alphabet_def)

lemma b64_index_char: "i < 64 \<Longrightarrow> b64_index (b64_char i) = i"
  by (simp add: b64_index_def b64_char_def index_of_nth b64_alphabet_distinct b64_alphabet_length)

lemma b64_char_not_pad: "i < 64 \<Longrightarrow> b64_char i \<noteq> CHR ''=''"
proof -
  assume "i < 64"
  then have "b64_char i \<in> set b64_alphabet"
    by (simp add: b64_char_def b64_alphabet_length)
  moreover have "CHR ''='' \<notin> set b64_alphabet" by (simp add: b64_alphabet_def)
  ultimately show ?thesis by auto
qed

lemma sextets_rejoin:
  "n div 262144 * 262144 + n div 4096 mod 64 * 4096 + n div 64 mod 64 * 64 + n mod 64 = (n::nat)"
proof -
  define q1 where "q1 = n div 64"
  define q2 where "q2 = q1 div 64"
  define q3 where "q3 = q2 div 64"
  have a: "n div 4096 = q2" "n div 262144 = q3"
    by (simp_all add: q1_def q2_def q3_def div_mult2_eq[symmetric])
  have 1: "q3 * 64 + q2 mod 64 = q2" by (simp add: q3_def)
  have 2: "q2 * 64 + q1 mod 64 = q1" by (simp add: q2_def)
  have 3: "q1 * 64 + n mod 64 = n" by (simp add: q1_def)
  have "q3 * 262144 + q2 mod 64 * 4096 + q1 mod 64 * 64 + n mod 64
          = (q3 * 64 + q2 mod 64) * 4096 + q1 mod 64 * 64 + n mod 64"
    by simp
  also have "\<dots> = q2 * 4096 + q1 mod 64 * 64 + n mod 64" by (simp only: 1)
  also have "\<dots> = (q2 * 64 + q1 mod 64) * 64 + n mod 64" by simp
  also have "\<dots> = q1 * 64 + n mod 64" by (simp only: 2)
  also have "\<dots> = n" by (rule 3)
  finally show ?thesis by (simp only: a q1_def[symmetric])
qed

lemma byte_bound: "unat (a :: byte) < 256"
  using unsigned_less[of a, where 'a = nat] by simp

lemma div_step: "r < m \<Longrightarrow> (q * m + r) div m = (q::nat)"
  by simp

lemma mod_step: "r < m \<Longrightarrow> (q * m + r) mod m = (r::nat)"
  by simp

lemma octets_split:
  assumes "x < 256" "y < 256" "z < 256"
  shows "(x * 65536 + y * 256 + z) div 65536 = (x::nat)"
    and "(x * 65536 + y * 256 + z) div 256 mod 256 = y"
    and "(x * 65536 + y * 256 + z) mod 256 = z"
    and "(x * 65536 + y * 256 + z) div 262144 < 64"
proof -
  have r: "y * 256 + z < 65536" using assms by linarith
  have e1: "x * 65536 + y * 256 + z = x * 65536 + (y * 256 + z)" by simp
  have e2: "x * 65536 + y * 256 + z = (x * 256 + y) * 256 + z" by simp
  show "(x * 65536 + y * 256 + z) div 65536 = x"
    unfolding e1 by (rule div_step[OF r])
  have "((x * 256 + y) * 256 + z) div 256 = x * 256 + y"
    by (rule div_step[OF assms(3)])
  moreover have "(x * 256 + y) mod 256 = y"
    by (rule mod_step[OF assms(2)])
  ultimately show "(x * 65536 + y * 256 + z) div 256 mod 256 = y"
    unfolding e2 by (simp only:)
  show "(x * 65536 + y * 256 + z) mod 256 = z"
    unfolding e2 by (rule mod_step[OF assms(3)])
  have "x * 65536 + y * 256 + z < 64 * 262144" using assms by linarith
  then show "(x * 65536 + y * 256 + z) div 262144 < 64"
    by (rule less_mult_imp_div_less)
qed

lemma b64decode_group:
  assumes "x < 256" "y < 256" "z < 256" and n: "n = x * 65536 + y * 256 + z"
  shows "b64_index (b64_char (n div 262144)) * 262144
           + b64_index (b64_char (n div 4096 mod 64)) * 4096
           + b64_index (b64_char (n div 64 mod 64)) * 64
           + b64_index (b64_char (n mod 64)) = n"
proof -
  have "n div 262144 < 64" using octets_split(4)[OF assms(1-3)] n by simp
  then show ?thesis by (simp add: b64_index_char sextets_rejoin)
qed

lemma byte_of_unat: "of_nat (unat (a :: byte)) = a"
  by simp

text \<open>Decoding what \<open>b64encode\<close> wrote gives the bytes back.\<close>

lemma b64_roundtrip: "b64decode (b64encode bs) = bs"
proof (induction bs rule: b64encode.induct)
  case (1 a b c rest)
  define n where "n = unat a * 65536 + unat b * 256 + unat c"
  have g: "b64_index (b64_char (n div 262144)) * 262144
           + b64_index (b64_char (n div 4096 mod 64)) * 4096
           + b64_index (b64_char (n div 64 mod 64)) * 64
           + b64_index (b64_char (n mod 64)) = n"
    by (rule b64decode_group[OF byte_bound byte_bound byte_bound n_def])
  have o: "n div 65536 = unat a" "n div 256 mod 256 = unat b" "n mod 256 = unat c"
    unfolding n_def by (rule octets_split[OF byte_bound byte_bound byte_bound])+
  have p: "b64_char (n div 64 mod 64) \<noteq> CHR ''=''" "b64_char (n mod 64) \<noteq> CHR ''=''"
    by (simp_all add: b64_char_not_pad)
  have "b64encode (a # b # c # rest)
          = [b64_char (n div 262144), b64_char (n div 4096 mod 64),
             b64_char (n div 64 mod 64), b64_char (n mod 64)] @ b64encode rest"
    by (simp add: Let_def n_def)
  then have "b64decode (b64encode (a # b # c # rest))
          = [of_nat (n div 65536), of_nat (n div 256 mod 256), of_nat (n mod 256)]
            @ b64decode (b64encode rest)"
    using p by (simp add: Let_def g)
  then show ?case by (simp only: o byte_of_unat "1.IH" append_Cons append_Nil)
next
  case (2 a b)
  define n where "n = unat a * 65536 + unat b * 256 + 0"
  have z: "(0::nat) < 256" by simp
  have g: "b64_index (b64_char (n div 262144)) * 262144
           + b64_index (b64_char (n div 4096 mod 64)) * 4096
           + b64_index (b64_char (n div 64 mod 64)) * 64
           + b64_index (b64_char (n mod 64)) = n"
    by (rule b64decode_group[OF byte_bound byte_bound z n_def])
  have o: "n div 65536 = unat a" "n div 256 mod 256 = unat b" "n mod 256 = 0"
    unfolding n_def by (rule octets_split[OF byte_bound byte_bound z])+
  have m: "n mod 64 = 0"
  proof -
    have "n = (unat a * 1024 + unat b * 4) * 64" by (simp add: n_def)
    then show ?thesis by simp
  qed
  have g': "b64_index (b64_char (n div 262144)) * 262144
           + b64_index (b64_char (n div 4096 mod 64)) * 4096
           + b64_index (b64_char (n div 64 mod 64)) * 64 = n"
    using g by (simp add: m b64_index_char)
  have p: "b64_char (n div 64 mod 64) \<noteq> CHR ''=''"
    by (simp add: b64_char_not_pad)
  have "b64encode [a, b]
          = [b64_char (n div 262144), b64_char (n div 4096 mod 64),
             b64_char (n div 64 mod 64), CHR ''='']"
    by (simp add: Let_def n_def)
  then have "b64decode (b64encode [a, b]) = [of_nat (n div 65536), of_nat (n div 256 mod 256)]"
    using p by (simp add: Let_def g')
  then show ?case by (simp only: o byte_of_unat)
next
  case (3 a)
  define n where "n = unat a * 65536 + 0 * 256 + 0"
  have z: "(0::nat) < 256" by simp
  have g: "b64_index (b64_char (n div 262144)) * 262144
           + b64_index (b64_char (n div 4096 mod 64)) * 4096
           + b64_index (b64_char (n div 64 mod 64)) * 64
           + b64_index (b64_char (n mod 64)) = n"
    by (rule b64decode_group[OF byte_bound z z n_def])
  have o: "n div 65536 = unat a"
    unfolding n_def by (rule octets_split[OF byte_bound z z])
  have m: "n mod 64 = 0" "n div 64 mod 64 = 0"
  proof -
    have e: "n = (unat a * 1024) * 64" by (simp add: n_def)
    then show "n mod 64 = 0" by simp
    have "n div 64 = (unat a * 16) * 64" by (simp add: e)
    then show "n div 64 mod 64 = 0" by simp
  qed
  have g': "b64_index (b64_char (n div 262144)) * 262144
           + b64_index (b64_char (n div 4096 mod 64)) * 4096 = n"
    using g by (simp add: m b64_index_char)
  have "b64encode [a] = [b64_char (n div 262144), b64_char (n div 4096 mod 64), CHR ''='', CHR ''='']"
    by (simp add: Let_def n_def)
  then have "b64decode (b64encode [a]) = [of_nat (n div 65536)]"
    by (simp add: Let_def g')
  then show ?case by (simp only: o byte_of_unat)
next
  case 4
  show ?case by simp
qed

subsection \<open>Claims about \<open>generate_with_images\<close>\<close>

text \<open>
  Called with the path as its one argument, the function does encode a readable file:
  the three bytes of \<open>cat.jpg\<close> become the data URI with the body \<open>TWFu\<close>.
\<close>

lemma encode_image_direct:
  "encode_image_to_data_uri disk [PStr ''cat.jpg''] = Inr ''data:image/jpeg;base64,TWFu''"
  by (simp add: encode_image_to_data_uri_def disk_def b64_char_def b64_alphabet_def)

text \<open>Called through the instance it receives two arguments and raises.\<close>

lemma encode_image_bound:
  "encode_image_to_data_uri files [PObj ''LocalOpenaiClient'', PStr img_path]
     = Inl (Exn TypeError
         (''LocalOpenaiClient._encode_image_to_data_uri() takes 1 positional argument but ''
            @ ''2 were given''))"
  by (simp add: encode_image_to_data_uri_def show_nat.simps digit_char_def)

text \<open>
  With at least one image path, whatever the disk holds, \<open>generate_with_images\<close> raises
  the \<open>RuntimeError\<close> wrapping that \<open>TypeError\<close> and sends nothing.
\<close>

lemma generate_with_images_raises:
  "generate_with_images self w files prompt (Some (img_path # rest)) system_prompt max_tokens temperature
     = (Inl (Exn RuntimeError
          (''server generate_with_images request failed: ''
             @ ''LocalOpenaiClient._encode_image_to_data_uri() takes 1 positional argument but ''
             @ ''2 were given'')), w)"
  by (simp add: generate_with_images_def Let_def encode_image_bound)

text \<open>
  C9, on the code. \<open>cat.jpg\<close> is readable, and \<open>generate_with_images\<close> with that one
  path raises before any request is built: the world is unchanged, no request holds a
  data URI.
\<close>

theorem generate_with_images_sends_no_image:
  "disk ''cat.jpg'' = Inr [77, 97, 110]
   \<and> generate_with_images local_client (replying ''a cat'') disk ''what is this?''
         (Some [''cat.jpg'']) [] 512 (7 / 10)
       = (Inl (Exn RuntimeError
            (''server generate_with_images request failed: ''
               @ ''LocalOpenaiClient._encode_image_to_data_uri() takes 1 positional argument but ''
               @ ''2 were given'')), replying ''a cat'')
   \<and> requests (snd (generate_with_images local_client (replying ''a cat'') disk ''what is this?''
         (Some [''cat.jpg'']) [] 512 (7 / 10))) = []"
  by (simp add: generate_with_images_raises disk_def requests_def replying_def)

end
